theory Spec2Isabelle
  imports Main "HOL-Library.Word" "HOL-Library.Multiset"
begin

section \<open>JavaScript values used by the notes application\<close>

text \<open>
  A JavaScript string is a sequence of UTF-16 code units; \<open>length\<close> counts code units,
  as \<^verbatim>\<open>String.prototype.length\<close> does. \<open>lit\<close> turns an ASCII literal of the source into
  such a string.
\<close>

type_synonym jstr = "16 word list"

definition lit :: "string \<Rightarrow> jstr" where
  "lit s = map of_char s"

text \<open>
  The code units that \<^verbatim>\<open>String.prototype.trim\<close> strips (ECMAScript WhiteSpace and
  LineTerminator): TAB, LF, VT, FF, CR, SPACE, NBSP, U+1680, U+2000..U+200A, U+2028,
  U+2029, U+202F, U+205F, U+3000 and U+FEFF.
\<close>

definition is_ws :: "16 word \<Rightarrow> bool" where
  "is_ws c \<longleftrightarrow>
     c \<in> set [0x09, 0x0A, 0x0B, 0x0C, 0x0D, 0x20, 0xA0, 0x1680,
              0x2000, 0x2001, 0x2002, 0x2003, 0x2004, 0x2005, 0x2006, 0x2007,
              0x2008, 0x2009, 0x200A, 0x2028, 0x2029, 0x202F, 0x205F, 0x3000, 0xFEFF]"

definition trim :: "jstr \<Rightarrow> jstr" where
  "trim s = rev (dropWhile is_ws (rev (dropWhile is_ws s)))"

text \<open>
  Values that arrive from the backend as parsed JSON, together with \<^verbatim>\<open>undefined\<close>, which
  a read of an absent property yields. Numbers are the integer-valued ones. An object is
  the list of its properties, the effective binding of a name first.
\<close>

datatype jsval =
    JUndefined
  | JNull
  | JBool bool
  | JNum int
  | JStr jstr
  | JArr "jsval list"
  | JObj "(string \<times> jsval) list"

datatype error = TypeError

text \<open>Truthiness (ToBoolean).\<close>

fun truthy :: "jsval \<Rightarrow> bool" where
  "truthy JUndefined = False"
| "truthy JNull = False"
| "truthy (JBool b) = b"
| "truthy (JNum n) = (n \<noteq> 0)"
| "truthy (JStr s) = (s \<noteq> [])"
| "truthy (JArr xs) = True"
| "truthy (JObj kvs) = True"

fun nullish :: "jsval \<Rightarrow> bool" where
  "nullish JUndefined = True"
| "nullish JNull = True"
| "nullish v = False"

text \<open>
  Property reads, for the property names the application reads (\<^verbatim>\<open>id\<close>, \<^verbatim>\<open>_id\<close>,
  \<^verbatim>\<open>title\<close>, \<^verbatim>\<open>content\<close>, \<^verbatim>\<open>updatedAt\<close>). \<open>own_prop v k\<close> is the value of
  \<^verbatim>\<open>v.k\<close> when \<open>v\<close> is neither \<^verbatim>\<open>null\<close> nor \<^verbatim>\<open>undefined\<close>: the property of an
  object, \<^verbatim>\<open>undefined\<close> when the object lacks it and on every other primitive and on an
  array. \<open>get_prop\<close> is the read itself, which throws a TypeError on \<^verbatim>\<open>null\<close> and
  \<^verbatim>\<open>undefined\<close>.
\<close>

fun own_prop :: "jsval \<Rightarrow> string \<Rightarrow> jsval" where
  "own_prop (JObj kvs) k = (case map_of kvs k of None \<Rightarrow> JUndefined | Some v \<Rightarrow> v)"
| "own_prop v k = JUndefined"

definition get_prop :: "jsval \<Rightarrow> string \<Rightarrow> error + jsval" where
  "get_prop v k = (if nullish v then Inl TypeError else Inr (own_prop v k))"

text \<open>The operators \<^verbatim>\<open>a ?? b\<close> and \<^verbatim>\<open>a || b\<close> on values.\<close>

definition coalesce :: "jsval \<Rightarrow> jsval \<Rightarrow> jsval" where
  "coalesce a b = (if nullish a then b else a)"

definition or_else :: "jsval \<Rightarrow> jsval \<Rightarrow> jsval" where
  "or_else a b = (if truthy a then a else b)"

text \<open>
  \<^verbatim>\<open>String(v)\<close>: the identity on strings. The conversion of the other values (numbers,
  booleans, arrays, objects) is the host's, given as \<open>toS\<close>; it throws a TypeError on an
  object that has no usable \<^verbatim>\<open>toString\<close> and \<^verbatim>\<open>valueOf\<close> (a parsed object with an own
  property \<^verbatim>\<open>toString\<close>, say), so \<open>toS\<close> returns a sum.
\<close>

definition js_String :: "(jsval \<Rightarrow> error + jstr) \<Rightarrow> jsval \<Rightarrow> error + jstr" where
  "js_String toS v = (case v of JStr s \<Rightarrow> Inr s | _ \<Rightarrow> toS v)"

section \<open>The note store (\<^verbatim>\<open>useLocalNotes\<close>)\<close>

text \<open>
  The collection is the state \<^verbatim>\<open>notes\<close> of the hook, a list. Each operation hands
  \<^verbatim>\<open>setNotes\<close> a function from the current collection to the new one; here the
  operation is that function, applied when the operation is called. The two sample notes
  that the hook puts into an empty collection when it mounts belong to the starting state.

  A note of the store: \<^verbatim>\<open>{ id, title, content, updatedAt }\<close>. The first three fields
  are strings on every path of the program; \<^verbatim>\<open>updatedAt\<close> is an ISO string when the
  client stamps it and whatever truthy value the backend sent otherwise.
\<close>

record Note =
  note_id :: jstr
  title :: jstr
  content :: jstr
  updatedAt :: jsval

text \<open>The argument of \<^verbatim>\<open>create\<close>: \<^verbatim>\<open>title\<close> and \<^verbatim>\<open>content\<close> may be absent.\<close>

record partial =
  pt_title :: "jstr option"
  pt_content :: "jstr option"

text \<open>
  The argument of \<^verbatim>\<open>update\<close>: an object holding any of the four properties of a note.
\<close>

record patch =
  p_id :: "jstr option"
  p_title :: "jstr option"
  p_content :: "jstr option"
  p_updatedAt :: "jsval option"

text \<open>
  \<^verbatim>\<open>uid()\<close> is \<^verbatim>\<open>Math.random().toString(36).slice(2) + Date.now().toString(36)\<close>:
  \<open>rnd\<close> is the first summand, the digits of the random fraction in base 36 (none when
  the random number is zero), \<open>clock\<close> the milliseconds that \<^verbatim>\<open>Date.now()\<close> reads.
\<close>

definition digit36 :: "nat \<Rightarrow> 16 word" where
  "digit36 d = (if d < 10 then 48 + of_nat d else 87 + of_nat d)"

fun base36 :: "nat \<Rightarrow> jstr" where
  "base36 n = (if n < 36 then [digit36 n] else base36 (n div 36) @ [digit36 (n mod 36)])"

definition uid :: "jstr \<Rightarrow> nat \<Rightarrow> jstr" where
  "uid rnd clock = rnd @ base36 clock"

text \<open>\<^verbatim>\<open>data.title?.trim() || dflt\<close>\<close>

definition trim_or :: "jstr option \<Rightarrow> jstr \<Rightarrow> jstr" where
  "trim_or field dflt =
     (case field of
        None \<Rightarrow> dflt
      | Some s \<Rightarrow> (if trim s \<noteq> [] then trim s else dflt))"

text \<open>
  \<^verbatim>\<open>create(data)\<close>. \<open>u\<close> is the value that the call of \<^verbatim>\<open>uid()\<close> returns and
  \<open>now\<close> the value of \<^verbatim>\<open>new Date().toISOString()\<close>. The result is the returned item
  and the new collection.
\<close>

definition create :: "jstr \<Rightarrow> jstr \<Rightarrow> partial \<Rightarrow> Note list \<Rightarrow> Note \<times> Note list" where
  "create u now data prev =
     (let item = \<lparr> note_id = u,
                   title = trim_or (pt_title data) (lit ''Untitled''),
                   content = trim_or (pt_content data) (lit ''''),
                   updatedAt = JStr now \<rparr>
      in (item, item # prev))"

text \<open>\<^verbatim>\<open>{ ...n, ...data }\<close>: the properties present in \<open>data\<close> override those of \<open>n\<close>.\<close>

definition spread :: "Note \<Rightarrow> patch \<Rightarrow> Note" where
  "spread n data =
     \<lparr> note_id = (case p_id data of None \<Rightarrow> note_id n | Some v \<Rightarrow> v),
       title = (case p_title data of None \<Rightarrow> title n | Some v \<Rightarrow> v),
       content = (case p_content data of None \<Rightarrow> content n | Some v \<Rightarrow> v),
       updatedAt = (case p_updatedAt data of None \<Rightarrow> updatedAt n | Some v \<Rightarrow> v) \<rparr>"

text \<open>
  \<^verbatim>\<open>update(id, data)\<close>: every record with the identifier becomes
  \<^verbatim>\<open>{ ...n, ...data, updatedAt: new Date().toISOString() }\<close>. \<open>now\<close> is the clock
  reading of the call: the source reads the clock once for each record it rewrites, which
  is one reading when the identifier is borne by one record, and the readings of one pass
  over the list otherwise.

  The variable \<^verbatim>\<open>updatedItem\<close> is assigned inside the updater, to the last record
  rewritten. React runs the updater during the call only when the component has no update
  pending (\<open>eager\<close>); otherwise it runs it before the next render, and \<^verbatim>\<open>update\<close>
  returns the \<^verbatim>\<open>null\<close> that the variable started with.
\<close>

definition merged :: "Note \<Rightarrow> patch \<Rightarrow> jstr \<Rightarrow> Note" where
  "merged n data now = (spread n data)\<lparr> updatedAt := JStr now \<rparr>"

fun updatedItem :: "jstr \<Rightarrow> patch \<Rightarrow> jstr \<Rightarrow> Note list \<Rightarrow> Note option \<Rightarrow> Note option" where
  "updatedItem i data now [] acc = acc"
| "updatedItem i data now (n # ns) acc =
     updatedItem i data now ns (if note_id n = i then Some (merged n data now) else acc)"

definition update ::
  "bool \<Rightarrow> jstr \<Rightarrow> patch \<Rightarrow> jstr \<Rightarrow> Note list \<Rightarrow> Note option \<times> Note list" where
  "update eager i data now prev =
     ((if eager then updatedItem i data now prev None else None),
      map (\<lambda>n. if note_id n = i then merged n data now else n) prev)"

text \<open>\<^verbatim>\<open>remove(id)\<close> and \<^verbatim>\<open>replaceAll(items)\<close>.\<close>

definition remove_note :: "jstr \<Rightarrow> Note list \<Rightarrow> Note list" where
  "remove_note i prev = filter (\<lambda>n. note_id n \<noteq> i) prev"

definition replaceAll :: "Note list \<Rightarrow> Note list \<Rightarrow> Note list" where
  "replaceAll items prev = items"

section \<open>The application state and the remote service\<close>

record Toast =
  message :: jstr
  variant :: jstr

text \<open>
  The state slices of \<^verbatim>\<open>App\<close> that the handlers read and write. \<open>notes_st\<close> is the store's
  collection. The theme, the search text, the timer that clears the toast, and the effects
  that copy the selected note into the draft and select the first note after mounting are
  left out.
\<close>

record app =
  notes_st :: "Note list"
  selectedId :: "jstr option"
  draft :: "Note option"
  validation :: "(string \<times> jstr) list"
  isSaving :: bool
  toast :: "Toast option"

definition showToast :: "jstr \<Rightarrow> jstr \<Rightarrow> app \<Rightarrow> app" where
  "showToast m v st = st\<lparr> toast := Some \<lparr> message = m, variant = v \<rparr> \<rparr>"

text \<open>
  A call of the API client, and how its promise settles. \<^verbatim>\<open>http\<close> rejects on a network
  error, on the 7 second abort and on a status that is not ok; it fulfils with the parsed
  body, or with \<^verbatim>\<open>null\<close> on status 204.
\<close>

datatype request =
    ListNotes
  | CreateNote Note
  | UpdateNote jstr "Note option"
  | DeleteNote jstr

datatype 'a settled = Rejected | Fulfilled 'a

section \<open>Creating a note (\<^verbatim>\<open>newNote\<close>)\<close>

text \<open>The synchronous part: the optimistic create, the selection, and the request if any.\<close>

definition newNote_begin :: "bool \<Rightarrow> jstr \<Rightarrow> jstr \<Rightarrow> app \<Rightarrow> Note \<times> app \<times> request option" where
  "newNote_begin enabled u now st =
     (let (created, ns) =
            create u now \<lparr> pt_title = Some (lit ''Untitled''), pt_content = Some (lit '''') \<rparr> (notes_st st);
          st1 = st\<lparr> notes_st := ns, selectedId := Some (note_id created) \<rparr>
      in if enabled then (created, st1, Some (CreateNote created))
         else (created, showToast (lit ''Note created'') (lit ''success'') st1, None))"

text \<open>
  The \<^verbatim>\<open>then\<close> callback. \<open>nowA\<close> is the clock reading of the fallback in the patch,
  \<open>nowB\<close> the one \<^verbatim>\<open>update\<close> takes; what \<^verbatim>\<open>update\<close> returns is not read. An
  exception in the callback (\<^verbatim>\<open>String(saved.id)\<close> can throw) reaches the \<^verbatim>\<open>catch\<close>
  callback, so the result is a sum.
\<close>

definition newNote_then ::
  "(jsval \<Rightarrow> error + jstr) \<Rightarrow> Note \<Rightarrow> jsval \<Rightarrow> jstr \<Rightarrow> jstr \<Rightarrow> app \<Rightarrow> error + app" where
  "newNote_then toS created saved nowA nowB st =
     (if truthy saved then
        (case get_prop saved ''id'' of
           Inl e \<Rightarrow> Inl e
         | Inr sid \<Rightarrow>
             if truthy sid \<and> sid \<noteq> JStr (note_id created) then
               (case js_String toS sid of
                  Inl e \<Rightarrow> Inl e
                | Inr newId \<Rightarrow>
                    (case get_prop saved ''updatedAt'' of
                       Inl e \<Rightarrow> Inl e
                     | Inr s_upd \<Rightarrow>
                         let ns = snd (update False (note_id created)
                                    \<lparr> p_id = Some newId, p_title = None, p_content = None,
                                      p_updatedAt = Some (or_else s_upd (JStr nowA)) \<rparr>
                                    nowB (notes_st st))
                         in Inr (showToast (lit ''Note created'') (lit ''success'')
                                   (st\<lparr> notes_st := ns, selectedId := Some newId \<rparr>))))
             else Inr (showToast (lit ''Note created'') (lit ''success'') st))
      else Inr (showToast (lit ''Note created'') (lit ''success'') st))"

definition newNote_catch :: "Note \<Rightarrow> app \<Rightarrow> app" where
  "newNote_catch created st =
     showToast (lit ''Failed to sync create'') (lit ''error'')
       (st\<lparr> notes_st := remove_note (note_id created) (notes_st st) \<rparr>)"

definition newNote_settle ::
  "(jsval \<Rightarrow> error + jstr) \<Rightarrow> Note \<Rightarrow> jsval settled \<Rightarrow> jstr \<Rightarrow> jstr \<Rightarrow> app \<Rightarrow> app" where
  "newNote_settle toS created outcome nowA nowB st =
     (case outcome of
        Rejected \<Rightarrow> newNote_catch created st
      | Fulfilled saved \<Rightarrow>
          (case newNote_then toS created saved nowA nowB st of
             Inl e \<Rightarrow> newNote_catch created st
           | Inr st' \<Rightarrow> st'))"

text \<open>
  One whole run of the handler: \<open>between\<close> is what other handlers did to the state while
  the request was in flight (the identity when nothing else ran).
\<close>

definition newNote ::
  "bool \<Rightarrow> jstr \<Rightarrow> jstr \<Rightarrow> (jsval \<Rightarrow> error + jstr) \<Rightarrow> jsval settled \<Rightarrow> jstr \<Rightarrow> jstr \<Rightarrow> (app \<Rightarrow> app) \<Rightarrow> app \<Rightarrow> app" where
  "newNote enabled u now toS outcome nowA nowB between st =
     (case newNote_begin enabled u now st of
        (created, st1, None) \<Rightarrow> st1
      | (created, st1, Some req) \<Rightarrow> newNote_settle toS created outcome nowA nowB (between st1))"

section \<open>Deleting a note (\<^verbatim>\<open>onDelete\<close>)\<close>

text \<open>
  The synchronous part returns the captured record when a request was sent. The handler's
  \<^verbatim>\<open>notes\<close> is the collection of the render in which the handler was made: the state the
  handler starts in.
\<close>

definition onDelete_begin :: "bool \<Rightarrow> jstr \<Rightarrow> app \<Rightarrow> app \<times> (request \<times> Note) option" where
  "onDelete_begin enabled i st =
     (case find (\<lambda>n. note_id n = i) (notes_st st) of
        None \<Rightarrow> (st, None)
      | Some existing \<Rightarrow>
          let st1 = st\<lparr> notes_st := remove_note i (notes_st st) \<rparr>;
              st2 = (if selectedId st = Some i then st1\<lparr> selectedId := None \<rparr> else st1)
          in if enabled then (st2, Some (DeleteNote i, existing))
             else (showToast (lit ''Note deleted'') (lit ''success'') st2, None))"

definition onDelete_then :: "app \<Rightarrow> app" where
  "onDelete_then st = showToast (lit ''Note deleted'') (lit ''success'') st"

text \<open>
  The \<^verbatim>\<open>catch\<close> callback: \<open>captured\<close> is the handler's \<^verbatim>\<open>notes\<close>, \<open>st\<close> the state
  when the promise is rejected.
\<close>

definition onDelete_catch :: "Note list \<Rightarrow> Note \<Rightarrow> jstr \<Rightarrow> jstr \<Rightarrow> app \<Rightarrow> app" where
  "onDelete_catch captured existing i now st =
     (let restored = existing\<lparr> updatedAt := JStr now \<rparr>
      in showToast (lit ''Failed to sync delete'') (lit ''error'')
           (st\<lparr> notes_st := replaceAll (restored # filter (\<lambda>n. note_id n \<noteq> i) captured) (notes_st st) \<rparr>))"

definition onDelete :: "bool \<Rightarrow> jstr \<Rightarrow> unit settled \<Rightarrow> jstr \<Rightarrow> (app \<Rightarrow> app) \<Rightarrow> app \<Rightarrow> app" where
  "onDelete enabled i outcome now between st =
     (case onDelete_begin enabled i st of
        (st1, None) \<Rightarrow> st1
      | (st1, Some (req, existing)) \<Rightarrow>
          (case outcome of
             Fulfilled u \<Rightarrow> onDelete_then (between st1)
           | Rejected \<Rightarrow> onDelete_catch (notes_st st) existing i now (between st1)))"

section \<open>Validation and saving (\<^verbatim>\<open>validate\<close>, \<^verbatim>\<open>onSave\<close>)\<close>

text \<open>The errors object, as the list of its properties; only \<^verbatim>\<open>title\<close> is ever set.\<close>

definition validate :: "Note \<Rightarrow> (string \<times> jstr) list" where
  "validate n =
     (if title n = [] \<or> trim (title n) = [] then [(''title'', lit ''Title is required'')]
      else if length (title n) > 120 then [(''title'', lit ''Title must be at most 120 characters'')]
      else [])"

definition patch_of :: "Note \<Rightarrow> patch" where
  "patch_of n = \<lparr> p_id = Some (note_id n), p_title = Some (title n),
                  p_content = Some (content n), p_updatedAt = Some (updatedAt n) \<rparr>"

text \<open>
  The part of \<^verbatim>\<open>onSave\<close> before the \<^verbatim>\<open>await\<close>. When a request is sent the result
  carries it with the captured \<^verbatim>\<open>prev\<close>. \<^verbatim>\<open>setValidation({})\<close> and
  \<^verbatim>\<open>setIsSaving(true)\<close> have queued updates on the component when \<^verbatim>\<open>update\<close> is
  called, so its updater is not run during the call and \<^verbatim>\<open>updated\<close>, the body of the
  request, is \<^verbatim>\<open>null\<close>.
\<close>

definition onSave_begin :: "bool \<Rightarrow> jstr \<Rightarrow> app \<Rightarrow> app \<times> (request \<times> Note option) option" where
  "onSave_begin enabled now st =
     (case draft st of
        None \<Rightarrow> (st, None)
      | Some d \<Rightarrow>
          let errors = validate d in
          if length errors \<noteq> 0 then (st\<lparr> validation := errors \<rparr>, None)
          else
            let st1 = st\<lparr> validation := [], isSaving := True \<rparr>;
                prev = find (\<lambda>n. note_id n = note_id d) (notes_st st);
                (updated, ns) =
                  update False (note_id d)
                    \<lparr> p_id = None, p_title = Some (title d), p_content = Some (content d),
                      p_updatedAt = None \<rparr>
                    now (notes_st st);
                st2 = st1\<lparr> notes_st := ns \<rparr>
            in if enabled then (st2, Some (UpdateNote (note_id d) updated, prev))
               else (showToast (lit ''Saved'') (lit ''success'') (st2\<lparr> isSaving := False \<rparr>), None))"

definition onSave_then :: "app \<Rightarrow> app" where
  "onSave_then st = (showToast (lit ''Saved'') (lit ''success'') st)\<lparr> isSaving := False \<rparr>"

definition onSave_catch :: "Note option \<Rightarrow> jstr \<Rightarrow> app \<Rightarrow> app" where
  "onSave_catch prev now st =
     (let st1 = (case prev of
                   None \<Rightarrow> st
                 | Some p \<Rightarrow>
                     st\<lparr> notes_st := snd (update False (note_id p) (patch_of p) now (notes_st st)) \<rparr>)
      in (showToast (lit ''Failed to sync save'') (lit ''error'') st1)\<lparr> isSaving := False \<rparr>)"

definition onSave :: "bool \<Rightarrow> jstr \<Rightarrow> jsval settled \<Rightarrow> jstr \<Rightarrow> (app \<Rightarrow> app) \<Rightarrow> app \<Rightarrow> app" where
  "onSave enabled now outcome now' between st =
     (case onSave_begin enabled now st of
        (st1, None) \<Rightarrow> st1
      | (st1, Some (req, prev)) \<Rightarrow>
          (case outcome of
             Fulfilled r \<Rightarrow> onSave_then (between st1)
           | Rejected \<Rightarrow> onSave_catch prev now' (between st1)))"

section \<open>Loading from the backend (\<^verbatim>\<open>bootstrap\<close>)\<close>

fun isArray :: "jsval \<Rightarrow> bool" where
  "isArray (JArr xs) = True"
| "isArray v = False"

fun elements :: "jsval \<Rightarrow> jsval list" where
  "elements (JArr xs) = xs"
| "elements v = []"

text \<open>
  The callback of \<^verbatim>\<open>serverNotes.map\<close>. \<open>u\<close> is what \<^verbatim>\<open>uid()\<close> returns and \<open>now\<close> what
  the clock reads, should the callback ask for them on this element.
\<close>

definition normalize ::
  "(jsval \<Rightarrow> error + jstr) \<Rightarrow> jstr \<Rightarrow> jstr \<Rightarrow> jsval \<Rightarrow> error + Note" where
  "normalize toS u now n =
     (case get_prop n ''id'' of Inl e \<Rightarrow> Inl e | Inr v_id \<Rightarrow>
     (case get_prop n ''_id'' of Inl e \<Rightarrow> Inl e | Inr v_id' \<Rightarrow>
     (case js_String toS (coalesce v_id (coalesce v_id' (JStr u))) of Inl e \<Rightarrow> Inl e | Inr s_id \<Rightarrow>
     (case get_prop n ''title'' of Inl e \<Rightarrow> Inl e | Inr v_title \<Rightarrow>
     (case js_String toS (coalesce v_title (JStr (lit ''Untitled''))) of Inl e \<Rightarrow> Inl e | Inr s_title \<Rightarrow>
     (case get_prop n ''content'' of Inl e \<Rightarrow> Inl e | Inr v_content \<Rightarrow>
     (case js_String toS (coalesce v_content (JStr (lit ''''))) of Inl e \<Rightarrow> Inl e | Inr s_content \<Rightarrow>
     (case get_prop n ''updatedAt'' of Inl e \<Rightarrow> Inl e | Inr v_updatedAt \<Rightarrow>
        Inr \<lparr> note_id = s_id, title = s_title, content = s_content,
              updatedAt = or_else v_updatedAt (JStr now) \<rparr>))))))))"

text \<open>
  \<^verbatim>\<open>serverNotes.map(...)\<close> from position \<open>k\<close> on; \<open>uid_of k\<close> and \<open>now_of k\<close> are the
  generator's value and the clock reading at the element of position \<open>k\<close>. The first
  exception ends the map.
\<close>

fun normalize_all ::
  "(jsval \<Rightarrow> error + jstr) \<Rightarrow> (nat \<Rightarrow> jstr) \<Rightarrow> (nat \<Rightarrow> jstr) \<Rightarrow> nat \<Rightarrow> jsval list \<Rightarrow> error + Note list" where
  "normalize_all toS uid_of now_of k [] = Inr []"
| "normalize_all toS uid_of now_of k (n # ns) =
     (case normalize toS (uid_of k) (now_of k) n of
        Inl e \<Rightarrow> Inl e
      | Inr x \<Rightarrow>
          (case normalize_all toS uid_of now_of (Suc k) ns of
             Inl e \<Rightarrow> Inl e
           | Inr xs \<Rightarrow> Inr (x # xs)))"

text \<open>
  The comparator \<^verbatim>\<open>(a, b) => new Date(b.updatedAt) - new Date(a.updatedAt)\<close>.
  \<open>dateOf v\<close> is what \<^verbatim>\<open>new Date(v)\<close> does: it throws a TypeError where the
  conversion of \<open>v\<close> to a primitive does, and gives otherwise the time value in
  milliseconds, \<open>None\<close> for an invalid date; the difference of an invalid date is
  \<^verbatim>\<open>NaN\<close>, here \<open>None\<close>.
\<close>

definition compareFn ::
  "(jsval \<Rightarrow> error + int option) \<Rightarrow> Note \<Rightarrow> Note \<Rightarrow> error + int option" where
  "compareFn dateOf a b =
     (case dateOf (updatedAt b) of
        Inl e \<Rightarrow> Inl e
      | Inr tb \<Rightarrow>
          (case dateOf (updatedAt a) of
             Inl e \<Rightarrow> Inl e
           | Inr ta \<Rightarrow>
               Inr (case tb of
                      None \<Rightarrow> None
                    | Some x \<Rightarrow> (case ta of None \<Rightarrow> None | Some y \<Rightarrow> Some (x - y)))))"


text \<open>
  \<^verbatim>\<open>Array.prototype.sort\<close> with a comparator. The language fixes the result when the
  comparator is consistent on the elements: every call returns a number that is not
  \<^verbatim>\<open>NaN\<close>, and the relations it induces are reflexive, symmetric and transitive as
  the specification of \<^verbatim>\<open>sort\<close> lists them. The result is then the stable sort, in
  which \<open>x\<close> goes behind \<open>y\<close> when the comparator is positive on \<open>(x, y)\<close>. For any
  other comparator (one that throws, or returns \<^verbatim>\<open>NaN\<close>) the outcome is the engine's,
  given as \<open>hostSort\<close>: a list in an order of the engine's choice, or the exception.
\<close>

definition sign_of :: "('a \<Rightarrow> 'a \<Rightarrow> error + int option) \<Rightarrow> 'a \<Rightarrow> 'a \<Rightarrow> int" where
  "sign_of cmp a b = (case cmp a b of Inr (Some v) \<Rightarrow> sgn v | _ \<Rightarrow> 0)"

definition returns_number :: "('a \<Rightarrow> 'a \<Rightarrow> error + int option) \<Rightarrow> 'a \<Rightarrow> 'a \<Rightarrow> bool" where
  "returns_number cmp a b = (case cmp a b of Inr (Some v) \<Rightarrow> True | _ \<Rightarrow> False)"

definition consistent :: "('a \<Rightarrow> 'a \<Rightarrow> error + int option) \<Rightarrow> 'a list \<Rightarrow> bool" where
  "consistent cmp xs =
     list_all (\<lambda>a. list_all (\<lambda>b.
         returns_number cmp a b
       \<and> sign_of cmp a a = 0
       \<and> (if sign_of cmp a b = 0 then sign_of cmp b a = 0 else True)
       \<and> list_all (\<lambda>c.
             (if sign_of cmp a b = 0 \<and> sign_of cmp b c = 0 then sign_of cmp a c = 0 else True)
           \<and> (if sign_of cmp a b < 0 \<and> sign_of cmp b c < 0 then sign_of cmp a c < 0 else True)
           \<and> (if sign_of cmp a b > 0 \<and> sign_of cmp b c > 0 then sign_of cmp a c > 0 else True))
           xs) xs) xs"

fun sort_insert :: "('a \<Rightarrow> 'a \<Rightarrow> error + int option) \<Rightarrow> 'a \<Rightarrow> 'a list \<Rightarrow> 'a list" where
  "sort_insert cmp x [] = [x]"
| "sort_insert cmp x (y # ys) =
     (if sign_of cmp x y > 0 then y # sort_insert cmp x ys else x # y # ys)"

definition js_sort ::
  "(('a \<Rightarrow> 'a \<Rightarrow> error + int option) \<Rightarrow> 'a list \<Rightarrow> error + 'a list)
     \<Rightarrow> ('a \<Rightarrow> 'a \<Rightarrow> error + int option) \<Rightarrow> 'a list \<Rightarrow> error + 'a list" where
  "js_sort hostSort cmp xs =
     (if consistent cmp xs then Inr (foldr (sort_insert cmp) xs []) else hostSort cmp xs)"

text \<open>
  \<^verbatim>\<open>bootstrap\<close>: \<open>cancel\<close> is the effect's flag at the moment the listing arrives (set by
  the effect's cleanup), \<open>outcome\<close> how \<^verbatim>\<open>api.listNotes()\<close> settled. An exception in
  the normalization or in the sort is caught, and the store is left alone.
\<close>

definition bootstrap ::
  "bool \<Rightarrow> bool \<Rightarrow> jsval settled \<Rightarrow> (jsval \<Rightarrow> error + jstr) \<Rightarrow> (jsval \<Rightarrow> error + int option)
     \<Rightarrow> ((Note \<Rightarrow> Note \<Rightarrow> error + int option) \<Rightarrow> Note list \<Rightarrow> error + Note list)
     \<Rightarrow> (nat \<Rightarrow> jstr) \<Rightarrow> (nat \<Rightarrow> jstr) \<Rightarrow> app \<Rightarrow> app" where
  "bootstrap enabled cancel outcome toS dateOf hostSort uid_of now_of st =
     (if \<not> enabled then st
      else
        (case outcome of
           Rejected \<Rightarrow> st
         | Fulfilled serverNotes \<Rightarrow>
             if \<not> cancel \<and> isArray serverNotes then
               (case normalize_all toS uid_of now_of 0 (elements serverNotes) of
                  Inl e \<Rightarrow> st
                | Inr normalized \<Rightarrow>
                    (case js_sort hostSort (compareFn dateOf) normalized of
                       Inl e \<Rightarrow> st
                     | Inr sorted_notes \<Rightarrow>
                         st\<lparr> notes_st := replaceAll sorted_notes (notes_st st) \<rparr>))
             else st))"

section \<open>Concrete inputs\<close>

text \<open>
  A store holding one note, selected and being edited (the title changed from X to Y), and
  the readings of the clock used in the examples.
\<close>

definition ex_note :: Note where
  "ex_note = \<lparr> note_id = lit ''a'', title = lit ''X'', content = lit ''body'',
               updatedAt = JStr (lit ''2024-01-01T00:00:00.000Z'') \<rparr>"

definition ex_draft :: Note where
  "ex_draft = ex_note\<lparr> title := lit ''Y'' \<rparr>"

definition ex_state :: app where
  "ex_state = \<lparr> notes_st = [ex_note], selectedId = Some (lit ''a''),
                draft = Some ex_draft, validation = [],
                isSaving = False, toast = None \<rparr>"

definition t1 :: jstr where
  "t1 = lit ''2024-01-02T00:00:00.000Z''"

definition t2 :: jstr where
  "t2 = lit ''2024-01-02T00:00:07.000Z''"

definition t3 :: jstr where
  "t3 = lit ''2024-01-02T00:00:07.001Z''"

text \<open>
  The identifier that \<^verbatim>\<open>uid()\<close> returns at the clock reading \<open>t1\<close> when the random
  digits are \<^verbatim>\<open>4fzyo82mvy\<close> (the clock is \<^verbatim>\<open>lqvl1xc0\<close> in base 36), a note made
  locally under it in that millisecond, and a store holding that note.
\<close>

definition ex_uid :: jstr where
  "ex_uid = uid (lit ''4fzyo82mvy'') 1704153600000"

definition ex_local :: Note where
  "ex_local = \<lparr> note_id = ex_uid, title = lit ''Shopping'', content = lit ''milk'',
                updatedAt = JStr t1 \<rparr>"

definition ex_state2 :: app where
  "ex_state2 = \<lparr> notes_st = [ex_local], selectedId = None, draft = None, validation = [],
                 isSaving = False, toast = None \<rparr>"

text \<open>
  Two answers of the backend to a create: one with an identifier of its own and its own
  time stamp, one whose identifier is that of the note \<open>ex_note\<close>.
\<close>

definition ex_saved :: jsval where
  "ex_saved = JObj [(''id'', JStr (lit ''srv-17'')), (''title'', JStr (lit ''Untitled'')),
                    (''content'', JStr (lit '''')),
                    (''updatedAt'', JStr (lit ''2024-01-02T00:00:06.500Z''))]"

definition ex_saved_dup :: jsval where
  "ex_saved_dup = JObj [(''id'', JStr (lit ''a''))]"

text \<open>
  What other handlers do between the optimistic removal and the rejection of a delete, in
  the example: a note is put in front of the collection.
\<close>

definition ex_between :: "app \<Rightarrow> app" where
  "ex_between s = s\<lparr> notes_st := ex_local # notes_st s \<rparr>"

text \<open>A title of 120 letters.\<close>

definition ex_long :: jstr where
  "ex_long = replicate 120 0x61"

text \<open>
  A host for the examples. \<open>ex_toS\<close> is \<^verbatim>\<open>String\<close> on the values that occur in the
  examples: an integer of magnitude up to \<open>2 ^ 53\<close> is printed in decimal digits,
  \<^verbatim>\<open>undefined\<close>, \<^verbatim>\<open>null\<close> and the booleans by their names, an object as
  \<^verbatim>\<open>[object Object]\<close>, unless it has an own property \<^verbatim>\<open>toString\<close> (parsed JSON is
  never callable): then the conversion throws. \<open>ex_dateOf\<close> is \<^verbatim>\<open>new Date\<close> on
  numbers, booleans, \<^verbatim>\<open>null\<close>, the ISO strings of the examples and objects. On the
  values that do not occur in the examples (larger numbers, arrays, other strings) the two
  functions answer as for an object without \<^verbatim>\<open>toString\<close>, which the host need not do.
  \<open>ex_hostSort\<close> stands for the engine on a comparator that is not consistent; it
  returns the list as it is, one of the orders an engine may choose.
\<close>

fun digits :: "nat \<Rightarrow> jstr" where
  "digits n = (if n < 10 then [48 + of_nat n] else digits (n div 10) @ [48 + of_nat (n mod 10)])"

definition ex_toS :: "jsval \<Rightarrow> error + jstr" where
  "ex_toS v =
     (case v of
        JUndefined \<Rightarrow> Inr (lit ''undefined'')
      | JNull \<Rightarrow> Inr (lit ''null'')
      | JBool b \<Rightarrow> Inr (if b then lit ''true'' else lit ''false'')
      | JNum n \<Rightarrow>
          (if \<bar>n\<bar> \<le> 9007199254740992
           then Inr (if n < 0 then lit ''-'' @ digits (nat (- n)) else digits (nat n))
           else Inr (lit ''[object Object]''))
      | JStr s \<Rightarrow> Inr s
      | JArr xs \<Rightarrow> Inr (lit ''[object Object]'')
      | JObj kvs \<Rightarrow>
          (if map_of kvs ''toString'' = None then Inr (lit ''[object Object]'')
           else Inl TypeError))"

definition ex_dateOf :: "jsval \<Rightarrow> error + int option" where
  "ex_dateOf v =
     (case v of
        JNum n \<Rightarrow> Inr (if \<bar>n\<bar> \<le> 8640000000000000 then Some n else None)
      | JStr s \<Rightarrow> Inr (map_of [(lit ''2024-01-01T00:00:00.000Z'', 1704067200000),
                                 (lit ''2024-01-02T00:00:00.000Z'', 1704153600000),
                                 (lit ''2024-01-02T00:00:07.000Z'', 1704153607000),
                                 (lit ''2024-01-02T00:00:07.001Z'', 1704153607001)] s)
      | JBool b \<Rightarrow> Inr (Some (if b then 1 else 0))
      | JNull \<Rightarrow> Inr (Some 0)
      | JUndefined \<Rightarrow> Inr None
      | JArr xs \<Rightarrow> Inr None
      | JObj kvs \<Rightarrow> (if map_of kvs ''toString'' = None then Inr None else Inl TypeError))"

definition ex_hostSort ::
  "(Note \<Rightarrow> Note \<Rightarrow> error + int option) \<Rightarrow> Note list \<Rightarrow> error + Note list" where
  "ex_hostSort cmp xs = Inr xs"

text \<open>
  The generator and the clock during a bootstrap, and a listing of three records: one with
  a number as identifier, one with \<^verbatim>\<open>_id\<close> only and neither title nor content, one
  without \<^verbatim>\<open>updatedAt\<close>.
\<close>

definition ex_uid_of :: "nat \<Rightarrow> jstr" where
  "ex_uid_of k = uid (lit ''4fzyo82mv'' @ digits k) 1704153607001"

definition ex_now_of :: "nat \<Rightarrow> jstr" where
  "ex_now_of k = t3"


text \<open>
  A store of three notes, a later clock reading, the answer of the backend to a create
  with the identifier \<^verbatim>\<open>0\<close>, and a record whose identifier cannot be converted to a
  string.
\<close>

definition ex_third :: Note where
  "ex_third = \<lparr> note_id = lit ''b'', title = lit ''Z'', content = lit ''more'',
                updatedAt = JStr (lit ''2024-01-01T00:00:00.000Z'') \<rparr>"

definition ex_state3 :: app where
  "ex_state3 = \<lparr> notes_st = [ex_local, ex_note, ex_third], selectedId = None, draft = None,
                 validation = [], isSaving = False, toast = None \<rparr>"

definition t4 :: jstr where
  "t4 = lit ''2024-01-02T00:00:09.000Z''"

definition ex_saved_zero :: jsval where
  "ex_saved_zero = JObj [(''id'', JNum 0)]"



section \<open>Facts about the store\<close>

lemma ex_uid_value: "ex_uid = lit ''4fzyo82mvylqvl1xc0''"
  by (simp add: ex_uid_def uid_def digit36_def lit_def)

lemma find_Some_holds: "find P xs = Some p \<Longrightarrow> P p"
  by (induction xs) (auto split: if_splits)

lemma find_map_same:
  "find P xs = Some p \<Longrightarrow> P c \<Longrightarrow> find P (map (\<lambda>n. if P n then c else n) xs) = Some c"
  by (induction xs) (auto split: if_splits)

lemma merged_patch_of: "merged n (patch_of p) now = p\<lparr> updatedAt := JStr now \<rparr>"
  by (simp add: merged_def spread_def patch_of_def)

lemma note_id_merged_keep: "p_id data = None \<Longrightarrow> note_id (merged n data now) = note_id n"
  by (simp add: merged_def spread_def)

lemma map_if_absent:
  "i \<notin> set (map note_id ns) \<Longrightarrow> map (\<lambda>n. if note_id n = i then f n else n) ns = ns"
  by (induction ns) auto

lemma filter_absent:
  "i \<notin> set (map note_id ns) \<Longrightarrow> filter (\<lambda>n. note_id n \<noteq> i) ns = ns"
  by (induction ns) auto

lemma filter_eq_absent:
  "i \<notin> set (map note_id ns) \<Longrightarrow> filter (\<lambda>n. note_id n = i) ns = []"
  by (induction ns) auto

lemma newNote_begin_enabled:
  "newNote_begin True u now st =
     (\<lparr> note_id = u, title = lit ''Untitled'', content = [], updatedAt = JStr now \<rparr>,
      st\<lparr> notes_st := \<lparr> note_id = u, title = lit ''Untitled'', content = [],
                          updatedAt = JStr now \<rparr> # notes_st st,
          selectedId := Some u \<rparr>,
      Some (CreateNote \<lparr> note_id = u, title = lit ''Untitled'', content = [],
                         updatedAt = JStr now \<rparr>))"
  by (simp add: newNote_begin_def create_def Let_def trim_or_def trim_def is_ws_def lit_def)

section \<open>Saving: the rollback after a failed remote update\<close>

lemma onSave_begin_valid:
  assumes "draft st = Some d" and "validate d = []"
  shows "onSave_begin True now st =
     (st\<lparr> validation := [], isSaving := True,
          notes_st := map (\<lambda>n. if note_id n = note_id d
                                then merged n \<lparr> p_id = None, p_title = Some (title d),
                                                p_content = Some (content d),
                                                p_updatedAt = None \<rparr> now
                                else n) (notes_st st) \<rparr>,
      Some (UpdateNote (note_id d) None,
            find (\<lambda>n. note_id n = note_id d) (notes_st st)))"
  using assms by (simp add: onSave_begin_def update_def Let_def)

lemma onSave_rejected:
  assumes "draft st = Some d" and "validate d = []"
    and "find (\<lambda>n. note_id n = note_id d) (notes_st st) = Some prev"
  shows "onSave True now Rejected now' between st =
     (between (fst (onSave_begin True now st)))
       \<lparr> notes_st := map (\<lambda>n. if note_id n = note_id d
                               then prev\<lparr> updatedAt := JStr now' \<rparr> else n)
                        (notes_st (between (fst (onSave_begin True now st)))),
         toast := Some \<lparr> message = lit ''Failed to sync save'', variant = lit ''error'' \<rparr>,
         isSaving := False \<rparr>"
proof -
  have pid: "note_id prev = note_id d"
    using find_Some_holds [OF assms(3)] by simp
  show ?thesis
    using assms(3) pid
    by (simp add: onSave_def onSave_begin_valid [OF assms(1,2)] onSave_catch_def update_def
        showToast_def merged_patch_of cong: if_cong)
qed

lemma find_map_keep_id:
  assumes "\<And>n. note_id (f n) = note_id n"
  shows "find (\<lambda>n. note_id n = i) (map f ns)
           = map_option f (find (\<lambda>n. note_id n = i) ns)"
  using assms by (induction ns) auto

text \<open>
  C1, as amended. Let the draft be valid and let \<open>prev\<close> be the record that
  \<^verbatim>\<open>notes.find\<close> returns for the draft's identifier: the first note of the store with
  that identifier, the only one when identifiers are unique. When the remote update fails,
  the rollback writes \<open>prev\<close> back through \<^verbatim>\<open>update\<close>, which stamps \<^verbatim>\<open>updatedAt\<close>
  anew. So, whatever ran while the request was in flight: every note that bears the
  identifier at the moment of the failure becomes \<open>prev\<close> with the time of the rollback
  as \<^verbatim>\<open>updatedAt\<close>, the notes with another identifier stay as they are at that moment;
  the store entry of the identifier, when the store has one at that moment, is \<open>prev\<close>
  in identifier, title and content, with the time of the rollback as \<^verbatim>\<open>updatedAt\<close>;
  it has one when nothing else ran; and the failure is reported by the error toast.
\<close>

theorem onSave_rollback:
  assumes "draft st = Some d" and "validate d = []"
    and "find (\<lambda>n. note_id n = note_id d) (notes_st st) = Some prev"
  shows "notes_st (onSave True now Rejected now' between st)
           = map (\<lambda>n. if note_id n = note_id d
                       then prev\<lparr> updatedAt := JStr now' \<rparr> else n)
               (notes_st (between (fst (onSave_begin True now st))))
       \<and> (find (\<lambda>n. note_id n = note_id d)
             (notes_st (between (fst (onSave_begin True now st)))) \<noteq> None
           \<longrightarrow> find (\<lambda>n. note_id n = note_id d)
                 (notes_st (onSave True now Rejected now' between st))
               = Some (prev\<lparr> updatedAt := JStr now' \<rparr>))
       \<and> find (\<lambda>n. note_id n = note_id d) (notes_st (onSave True now Rejected now' id st))
           = Some (prev\<lparr> updatedAt := JStr now' \<rparr>)
       \<and> toast (onSave True now Rejected now' between st)
           = Some \<lparr> message = lit ''Failed to sync save'', variant = lit ''error'' \<rparr>"
proof -
  have pid: "note_id prev = note_id d"
    using find_Some_holds [OF assms(3)] by simp
  have entry: "find (\<lambda>n. note_id n = note_id d)
                 (map (\<lambda>n. if note_id n = note_id d
                            then prev\<lparr> updatedAt := JStr now' \<rparr> else n) ns)
               = Some (prev\<lparr> updatedAt := JStr now' \<rparr>)"
    if "find (\<lambda>n. note_id n = note_id d) ns \<noteq> None" for ns
  proof -
    from that obtain m where "find (\<lambda>n. note_id n = note_id d) ns = Some m"
      by auto
    from find_map_same [where P="\<lambda>n. note_id n = note_id d", OF this] pid
    show ?thesis by simp
  qed
  have a: "notes_st (onSave True now Rejected now' between st)
           = map (\<lambda>n. if note_id n = note_id d
                       then prev\<lparr> updatedAt := JStr now' \<rparr> else n)
               (notes_st (between (fst (onSave_begin True now st))))"
    for between
    by (simp add: onSave_rejected [OF assms])
  have kept: "find (\<lambda>n. note_id n = note_id d) (notes_st (fst (onSave_begin True now st)))
                \<noteq> None"
    using assms(3)
    by (simp add: onSave_begin_valid [OF assms(1,2)] find_map_keep_id note_id_merged_keep
        cong: if_cong)
  have b: "find (\<lambda>n. note_id n = note_id d)
             (notes_st (between (fst (onSave_begin True now st)))) \<noteq> None
           \<longrightarrow> find (\<lambda>n. note_id n = note_id d)
                 (notes_st (onSave True now Rejected now' between st))
               = Some (prev\<lparr> updatedAt := JStr now' \<rparr>)"
    by (simp only: a) (simp add: entry)
  have c: "find (\<lambda>n. note_id n = note_id d) (notes_st (onSave True now Rejected now' id st))
           = Some (prev\<lparr> updatedAt := JStr now' \<rparr>)"
    using kept by (simp only: a id_apply) (simp add: entry)
  have t: "toast (onSave True now Rejected now' between st)
           = Some \<lparr> message = lit ''Failed to sync save'', variant = lit ''error'' \<rparr>"
    by (simp add: onSave_rejected [OF assms])
  from a b c t show ?thesis by blast
qed

theorem onSave_rollback_witness:
  "draft ex_state = Some ex_draft
   \<and> validate ex_draft = []
   \<and> find (\<lambda>n. note_id n = note_id ex_draft) (notes_st ex_state) = Some ex_note
   \<and> find (\<lambda>n. note_id n = note_id ex_draft)
        (notes_st (ex_between (fst (onSave_begin True t1 ex_state)))) \<noteq> None
   \<and> find (\<lambda>n. note_id n = note_id ex_draft)
        (notes_st (onSave True t1 Rejected t2 ex_between ex_state))
       = Some (ex_note\<lparr> updatedAt := JStr t2 \<rparr>)
   \<and> notes_st (onSave True t1 Rejected t2 ex_between ex_state)
       = [ex_local, ex_note\<lparr> updatedAt := JStr t2 \<rparr>]
   \<and> find (\<lambda>n. note_id n = note_id ex_draft) (notes_st (onSave True t1 Rejected t2 id ex_state))
       = Some (ex_note\<lparr> updatedAt := JStr t2 \<rparr>)"
proof -
  have d: "draft ex_state = Some ex_draft"
    by (simp add: ex_state_def)
  have v: "validate ex_draft = []"
    by (simp add: validate_def ex_draft_def ex_note_def lit_def trim_def is_ws_def)
  have f: "find (\<lambda>n. note_id n = note_id ex_draft) (notes_st ex_state) = Some ex_note"
    by (simp add: ex_state_def ex_draft_def)
  have b: "notes_st (ex_between (fst (onSave_begin True t1 ex_state)))
             = [ex_local, merged ex_note \<lparr> p_id = None, p_title = Some (title ex_draft),
                                            p_content = Some (content ex_draft),
                                            p_updatedAt = None \<rparr> t1]"
    by (simp add: onSave_begin_valid [OF d v] ex_between_def) (simp add: ex_state_def ex_draft_def)
  have l: "note_id ex_local \<noteq> note_id ex_draft"
    by (simp add: ex_local_def ex_draft_def ex_note_def ex_uid_value lit_def)
  have n: "find (\<lambda>n. note_id n = note_id ex_draft)
        (notes_st (ex_between (fst (onSave_begin True t1 ex_state)))) \<noteq> None"
    using l by (simp add: b note_id_merged_keep) (simp add: ex_draft_def)
  have m: "map (\<lambda>n. if note_id n = note_id ex_draft
                     then ex_note\<lparr> updatedAt := JStr t2 \<rparr> else n)
             (notes_st (ex_between (fst (onSave_begin True t1 ex_state))))
           = [ex_local, ex_note\<lparr> updatedAt := JStr t2 \<rparr>]"
    using l by (simp add: b note_id_merged_keep) (simp add: ex_draft_def)
  note r = onSave_rollback [OF d v f, of t1 t2 ex_between]
  from r have a: "notes_st (onSave True t1 Rejected t2 ex_between ex_state)
           = map (\<lambda>n. if note_id n = note_id ex_draft
                       then ex_note\<lparr> updatedAt := JStr t2 \<rparr> else n)
               (notes_st (ex_between (fst (onSave_begin True t1 ex_state))))"
    by blast
  from r n have e: "find (\<lambda>n. note_id n = note_id ex_draft)
        (notes_st (onSave True t1 Rejected t2 ex_between ex_state))
       = Some (ex_note\<lparr> updatedAt := JStr t2 \<rparr>)"
    by blast
  from r have c: "find (\<lambda>n. note_id n = note_id ex_draft)
        (notes_st (onSave True t1 Rejected t2 id ex_state))
       = Some (ex_note\<lparr> updatedAt := JStr t2 \<rparr>)"
    by blast
  from a m have a': "notes_st (onSave True t1 Rejected t2 ex_between ex_state)
       = [ex_local, ex_note\<lparr> updatedAt := JStr t2 \<rparr>]"
    by (simp only:)
  from d v f n e a' c show ?thesis by blast
qed

text \<open>
  C1 as stated fails: the note X of 1 January is edited on 2 January, the remote update is
  rejected seven seconds later, nothing else has run, and the entry after the rollback is
  not the captured record (its \<^verbatim>\<open>updatedAt\<close> is the time of the rollback).
\<close>

theorem onSave_rollback_counterexample:
  "draft ex_state = Some ex_draft
   \<and> validate ex_draft = []
   \<and> find (\<lambda>n. note_id n = note_id ex_draft) (notes_st ex_state) = Some ex_note
   \<and> find (\<lambda>n. note_id n = note_id ex_draft) (notes_st (onSave True t1 Rejected t2 id ex_state))
       \<noteq> Some ex_note"
  by (simp add: onSave_def onSave_begin_def onSave_catch_def update_def showToast_def
        merged_def spread_def patch_of_def validate_def ex_state_def ex_note_def ex_draft_def
        t1_def t2_def lit_def trim_def is_ws_def)

section \<open>Creating: the identifier and the time stamp after a successful remote create\<close>

text \<open>
  C2 says that after a successful remote create with a differing identifier the note of
  the store has the server's identifier and the \<^verbatim>\<open>updatedAt\<close> of the server's response.
  The code at a concrete run: the store holds the note \<open>ex_note\<close>; a note is created under the
  local identifier \<open>ex_uid\<close>; the backend answers with the identifier \<^verbatim>\<open>srv-17\<close> and
  the time stamp \<^verbatim>\<open>2024-01-02T00:00:06.500Z\<close>. The note is rebound to \<^verbatim>\<open>srv-17\<close>,
  but its \<^verbatim>\<open>updatedAt\<close> is the clock reading \<open>t3\<close> of the client at the rebinding, not
  the stamp of the response: the patch carries the server's stamp and \<^verbatim>\<open>update\<close> writes
  its own over it.
\<close>

theorem newNote_rebind_stamp:
  "notes_st (newNote True ex_uid t1 ex_toS (Fulfilled ex_saved) t2 t3 id ex_state)
     = [\<lparr> note_id = lit ''srv-17'', title = lit ''Untitled'', content = [],
          updatedAt = JStr t3 \<rparr>, ex_note]
   \<and> own_prop ex_saved ''updatedAt'' = JStr (lit ''2024-01-02T00:00:06.500Z'')
   \<and> JStr t3 \<noteq> JStr (lit ''2024-01-02T00:00:06.500Z'')"
  by (simp add: newNote_def newNote_begin_enabled newNote_settle_def newNote_then_def
      get_prop_def ex_saved_def update_def merged_def spread_def js_String_def or_else_def
      Let_def showToast_def ex_state_def ex_note_def ex_uid_value t3_def lit_def)

section \<open>Creating: the rollback after a failed remote create\<close>

lemma newNote_rejected:
  "newNote True u now toS Rejected nowA nowB id st =
     st\<lparr> notes_st := filter (\<lambda>n. note_id n \<noteq> u) (notes_st st), selectedId := Some u,
         toast := Some \<lparr> message = lit ''Failed to sync create'', variant = lit ''error'' \<rparr> \<rparr>"
  by (simp add: newNote_def newNote_begin_enabled newNote_settle_def newNote_catch_def
      remove_note_def showToast_def)

text \<open>
  C3, as amended. When the remote create fails, the rollback removes every note that bears
  the identifier generated for the new note: the store afterwards holds the notes it held
  before whose identifier is another one, so exactly the notes it held before when the
  generated identifier was not in the store; the failure is reported by the error toast.
\<close>

theorem newNote_rollback:
  "notes_st (newNote True u now toS Rejected nowA nowB id st)
     = filter (\<lambda>n. note_id n \<noteq> u) (notes_st st)
   \<and> (u \<notin> set (map note_id (notes_st st))
        \<longrightarrow> notes_st (newNote True u now toS Rejected nowA nowB id st) = notes_st st)
   \<and> toast (newNote True u now toS Rejected nowA nowB id st)
       = Some \<lparr> message = lit ''Failed to sync create'', variant = lit ''error'' \<rparr>"
  by (simp add: newNote_rejected filter_absent)

theorem newNote_rollback_witness:
  "ex_uid \<notin> set (map note_id (notes_st ex_state))
   \<and> notes_st (newNote True ex_uid t1 ex_toS Rejected t2 t3 id ex_state) = notes_st ex_state"
proof -
  have f: "ex_uid \<notin> set (map note_id (notes_st ex_state))"
    by (simp add: ex_state_def ex_note_def ex_uid_value lit_def)
  from newNote_rollback [of ex_uid t1 ex_toS t2 t3 ex_state] f show ?thesis by blast
qed

text \<open>
  C3 as stated fails when the generator returns an identifier that a note of the store
  bears already (here a second create in the millisecond of the first, with the same random
  digits): that note goes with the new one, and the store that held one note is empty
  after the rollback.
\<close>

theorem newNote_rollback_counterexample:
  "notes_st ex_state2 = [ex_local]
   \<and> notes_st (newNote True ex_uid t1 ex_toS Rejected t2 t3 id ex_state2) = []"
  by (simp add: newNote_rejected ex_state2_def ex_local_def)

section \<open>Deleting: the restore after a failed remote delete\<close>

lemma onDelete_begin_found:
  assumes "find (\<lambda>n. note_id n = i) (notes_st st) = Some existing"
  shows "onDelete_begin True i st =
          ((if selectedId st = Some i
            then st\<lparr> notes_st := filter (\<lambda>n. note_id n \<noteq> i) (notes_st st), selectedId := None \<rparr>
            else st\<lparr> notes_st := filter (\<lambda>n. note_id n \<noteq> i) (notes_st st) \<rparr>),
           Some (DeleteNote i, existing))"
  using assms by (simp add: onDelete_begin_def remove_note_def Let_def)

lemma onDelete_rejected:
  assumes "find (\<lambda>n. note_id n = i) (notes_st st) = Some existing"
  shows "onDelete True i Rejected now between st =
           (between (fst (onDelete_begin True i st)))
             \<lparr> notes_st := existing\<lparr> updatedAt := JStr now \<rparr>
                            # filter (\<lambda>n. note_id n \<noteq> i) (notes_st st),
               toast := Some \<lparr> message = lit ''Failed to sync delete'', variant = lit ''error'' \<rparr> \<rparr>"
  by (simp add: onDelete_def onDelete_begin_found [OF assms] onDelete_catch_def replaceAll_def
      showToast_def Let_def)

lemma find_distinct_mem:
  "distinct (map note_id ns) \<Longrightarrow> n \<in> set ns \<Longrightarrow> find (\<lambda>m. note_id m = note_id n) ns = Some n"
  by (induction ns) (auto simp add: image_iff)

text \<open>
  C4, as amended. For an identifier \<open>i\<close> that a note of the store bears, let
  \<open>existing\<close> be the note that \<^verbatim>\<open>notes.find\<close> returns for it: the first note of the
  store with that identifier, and, when the identifiers of the store are unique, whichever
  note of the store bears it. The optimistic removal leaves no note with the identifier.
  When the remote delete fails, \<open>existing\<close> is back as the first element of the
  collection, with its identifier, title and content and with \<^verbatim>\<open>updatedAt\<close> set to the
  clock reading of the restore, in front of the captured notes of the other identifiers; it
  is then the only note with the identifier, so a further note that bore the identifier
  stays deleted. The failure is reported by the error toast. This holds whatever ran while
  the request was in flight.
\<close>

theorem onDelete_restore:
  assumes "find (\<lambda>n. note_id n = i) (notes_st st) = Some existing"
  shows "filter (\<lambda>n. note_id n = i) (notes_st (fst (onDelete_begin True i st))) = []
       \<and> notes_st (onDelete True i Rejected now between st)
           = existing\<lparr> updatedAt := JStr now \<rparr> # filter (\<lambda>n. note_id n \<noteq> i) (notes_st st)
       \<and> hd (notes_st (onDelete True i Rejected now between st))
           = \<lparr> note_id = note_id existing, title = title existing, content = content existing,
               updatedAt = JStr now \<rparr>
       \<and> filter (\<lambda>n. note_id n = i) (notes_st (onDelete True i Rejected now between st))
           = [existing\<lparr> updatedAt := JStr now \<rparr>]
       \<and> toast (onDelete True i Rejected now between st)
           = Some \<lparr> message = lit ''Failed to sync delete'', variant = lit ''error'' \<rparr>
       \<and> (\<forall>n. distinct (map note_id (notes_st st)) \<and> n \<in> set (notes_st st) \<and> note_id n = i
              \<longrightarrow> n = existing)"
proof -
  have eid: "note_id existing = i"
    using find_Some_holds [OF assms] by simp
  have u: "\<forall>n. distinct (map note_id (notes_st st)) \<and> n \<in> set (notes_st st) \<and> note_id n = i
              \<longrightarrow> n = existing"
    using find_distinct_mem [of "notes_st st"] assms by auto
  show ?thesis
    using eid u
    by (simp add: onDelete_rejected [OF assms] onDelete_begin_found [OF assms])
qed

theorem onDelete_restore_witness:
  "find (\<lambda>n. note_id n = lit ''a'') (notes_st ex_state3) = Some ex_note
   \<and> notes_st ex_state3 = [ex_local, ex_note, ex_third]
   \<and> distinct (map note_id (notes_st ex_state3))
   \<and> notes_st (fst (onDelete_begin True (lit ''a'') ex_state3)) = [ex_local, ex_third]
   \<and> notes_st (onDelete True (lit ''a'') Rejected t2 id ex_state3)
       = [\<lparr> note_id = lit ''a'', title = lit ''X'', content = lit ''body'', updatedAt = JStr t2 \<rparr>,
          ex_local, ex_third]"
proof -
  have f: "find (\<lambda>n. note_id n = lit ''a'') (notes_st ex_state3) = Some ex_note"
    by (simp add: ex_state3_def ex_note_def ex_local_def ex_uid_value lit_def)
  have e: "filter (\<lambda>n. note_id n \<noteq> lit ''a'') (notes_st ex_state3) = [ex_local, ex_third]"
    by (simp add: ex_state3_def ex_note_def ex_local_def ex_third_def ex_uid_value lit_def)
  have b: "notes_st (fst (onDelete_begin True (lit ''a'') ex_state3)) = [ex_local, ex_third]"
    by (simp add: onDelete_begin_found [OF f] e)
  have s: "notes_st ex_state3 = [ex_local, ex_note, ex_third]"
    by (simp add: ex_state3_def)
  from onDelete_restore [OF f, of t2 id]
  have "notes_st (onDelete True (lit ''a'') Rejected t2 id ex_state3)
           = ex_note\<lparr> updatedAt := JStr t2 \<rparr>
               # filter (\<lambda>n. note_id n \<noteq> lit ''a'') (notes_st ex_state3)"
    by blast
  then have r: "notes_st (onDelete True (lit ''a'') Rejected t2 id ex_state3)
       = [\<lparr> note_id = lit ''a'', title = lit ''X'', content = lit ''body'', updatedAt = JStr t2 \<rparr>,
          ex_local, ex_third]"
    by (simp add: e ex_note_def)
  have u: "distinct (map note_id (notes_st ex_state3))"
    by (simp add: ex_state3_def ex_note_def ex_local_def ex_third_def ex_uid_value lit_def)
  from f s u b r show ?thesis by blast
qed

text \<open>
  C4 as stated fails in a store where two notes bear one identifier, which the rebinding
  after a create can leave behind: the backend has answered a create with the identifier
  \<^verbatim>\<open>a\<close> of the note X, so the store holds the new note and the note X under \<^verbatim>\<open>a\<close>.
  The note X is deleted, the remote delete fails, and the store afterwards holds the new
  note alone: the note X, present before, has not reappeared.
\<close>

theorem onDelete_restore_counterexample:
  "notes_st (newNote True ex_uid t1 ex_toS (Fulfilled ex_saved_dup) t2 t3 id ex_state)
     = [\<lparr> note_id = lit ''a'', title = lit ''Untitled'', content = [], updatedAt = JStr t3 \<rparr>,
        ex_note]
   \<and> notes_st (onDelete True (note_id ex_note) Rejected t4 id
        (newNote True ex_uid t1 ex_toS (Fulfilled ex_saved_dup) t2 t3 id ex_state))
     = [\<lparr> note_id = lit ''a'', title = lit ''Untitled'', content = [], updatedAt = JStr t4 \<rparr>]
   \<and> title ex_note = lit ''X''
   \<and> lit ''X'' \<noteq> lit ''Untitled''"
  by (simp add: newNote_def newNote_begin_enabled newNote_settle_def newNote_then_def
      get_prop_def ex_saved_dup_def update_def merged_def spread_def js_String_def or_else_def
      Let_def showToast_def onDelete_def onDelete_begin_def onDelete_catch_def remove_note_def
      replaceAll_def ex_state_def ex_note_def ex_uid_value lit_def)

section \<open>Uniqueness of identifiers\<close>

lemma newNote_begin_state:
  "notes_st (fst (snd (newNote_begin True u now st)))
     = \<lparr> note_id = u, title = lit ''Untitled'', content = [], updatedAt = JStr now \<rparr>
         # notes_st st"
  by (simp add: newNote_begin_enabled)

lemma newNote_rebinds:
  assumes "truthy saved" and "truthy (own_prop saved ''id'')"
    and "own_prop saved ''id'' \<noteq> JStr u"
    and "js_String toS (own_prop saved ''id'') = Inr newId"
  shows "notes_st (newNote True u now toS (Fulfilled saved) nowA nowB between st)
           = map (\<lambda>n. if note_id n = u
                       then merged n \<lparr> p_id = Some newId, p_title = None, p_content = None,
                                       p_updatedAt = Some (or_else (own_prop saved ''updatedAt'')
                                                             (JStr nowA)) \<rparr> nowB
                       else n)
               (notes_st (between (fst (snd (newNote_begin True u now st)))))"
proof -
  have nn: "\<not> nullish saved"
    using assms(1) by (cases saved) auto
  show ?thesis
    using assms nn
    by (simp add: newNote_def newNote_begin_enabled newNote_settle_def newNote_then_def
        get_prop_def update_def Let_def showToast_def)
qed

lemma newNote_guard_fails:
  assumes "\<not> (truthy saved \<and> truthy (own_prop saved ''id'') \<and> own_prop saved ''id'' \<noteq> JStr u)"
  shows "notes_st (newNote True u now toS (Fulfilled saved) nowA nowB between st)
           = notes_st (between (fst (snd (newNote_begin True u now st))))"
proof (cases "truthy saved")
  case True
  then have "\<not> nullish saved"
    by (cases saved) auto
  with True assms show ?thesis
    by (auto simp add: newNote_def newNote_begin_enabled newNote_settle_def newNote_then_def
        get_prop_def showToast_def)
next
  case False
  then show ?thesis
    by (simp add: newNote_def newNote_begin_enabled newNote_settle_def newNote_then_def
        showToast_def)
qed

lemma newNote_String_throws:
  assumes "truthy saved" and "truthy (own_prop saved ''id'')"
    and "own_prop saved ''id'' \<noteq> JStr u"
    and "js_String toS (own_prop saved ''id'') = Inl e"
  shows "notes_st (newNote True u now toS (Fulfilled saved) nowA nowB between st)
           = filter (\<lambda>n. note_id n \<noteq> u)
               (notes_st (between (fst (snd (newNote_begin True u now st)))))"
proof -
  have nn: "\<not> nullish saved"
    using assms(1) by (cases saved) auto
  show ?thesis
    using assms nn
    by (simp add: newNote_def newNote_begin_enabled newNote_settle_def newNote_then_def
        newNote_catch_def remove_note_def get_prop_def showToast_def)
qed

lemma rebound_ids:
  assumes "\<And>n. note_id (f n) = newId"
  shows "map note_id (map (\<lambda>n. if note_id n = u then f n else n) ns)
           = map (\<lambda>x. if x = u then newId else x) (map note_id ns)"
  using assms by (induction ns) auto

lemma renamed_distinct:
  "distinct xs \<Longrightarrow> newId \<notin> set xs \<Longrightarrow> distinct (map (\<lambda>x. if x = u then newId else x) xs)"
  by (induction xs) auto

lemma renamed_count:
  "newId \<notin> set xs \<Longrightarrow> newId \<noteq> u \<Longrightarrow>
   length (filter (\<lambda>x. x = newId) (map (\<lambda>x. if x = u then newId else x) xs))
     = length (filter (\<lambda>x. x = u) xs)"
  by (induction xs) auto

lemma renamed_none:
  "newId \<noteq> u \<Longrightarrow> filter (\<lambda>x. x = u) (map (\<lambda>x. if x = u then newId else x) xs) = []"
  by (induction xs) auto

lemma filter_by_id:
  "length (filter (\<lambda>n. note_id n = k) ns) = length (filter (\<lambda>x. x = k) (map note_id ns))"
  by (induction ns) auto

lemma filter_by_id_Nil:
  "filter (\<lambda>x. x = k) (map note_id ns) = [] \<Longrightarrow> filter (\<lambda>n. note_id n = k) ns = []"
  by (induction ns) (auto split: if_splits)

lemma rebinding_keeps_unique:
  assumes "distinct (map note_id ns)" and "newId \<notin> set (map note_id ns)" and "newId \<noteq> u"
    and "\<And>n. note_id (f n) = newId"
  shows "length (filter (\<lambda>n. note_id n = newId) (map (\<lambda>n. if note_id n = u then f n else n) ns))
           = length (filter (\<lambda>n. note_id n = u) ns)"
    and "filter (\<lambda>n. note_id n = u) (map (\<lambda>n. if note_id n = u then f n else n) ns) = []"
    and "distinct (map note_id (map (\<lambda>n. if note_id n = u then f n else n) ns))"
proof -
  note ids = rebound_ids [where f=f and newId=newId and u=u and ns=ns, OF assms(4)]
  show "length (filter (\<lambda>n. note_id n = newId) (map (\<lambda>n. if note_id n = u then f n else n) ns))
           = length (filter (\<lambda>n. note_id n = u) ns)"
    by (simp only: filter_by_id ids renamed_count [OF assms(2,3)])
  show "filter (\<lambda>n. note_id n = u) (map (\<lambda>n. if note_id n = u then f n else n) ns) = []"
    by (rule filter_by_id_Nil) (simp only: ids renamed_none [OF assms(3)])
  show "distinct (map note_id (map (\<lambda>n. if note_id n = u then f n else n) ns))"
    by (simp only: ids renamed_distinct [OF assms(1,2)])
qed

text \<open>
  C5, as amended. Nothing in the store compares identifiers, so their uniqueness is kept
  only under conditions: by \<^verbatim>\<open>create\<close> when the generated identifier is not yet in the
  store, by \<^verbatim>\<open>update\<close> when the patch leaves the identifier alone, by \<^verbatim>\<open>remove\<close>
  always, and \<^verbatim>\<open>replaceAll\<close> stores the list it is given.

  After a remote create has succeeded, the rebinding takes place when the response is
  truthy and carries a truthy \<^verbatim>\<open>id\<close> that is not the local identifier (the guard
  \<^verbatim>\<open>saved && saved.id && saved.id !== created.id\<close>); otherwise the store is left as it
  is at that moment, so that an identifier such as \<^verbatim>\<open>0\<close> is not taken over. When the
  guard holds and \<^verbatim>\<open>String(saved.id)\<close> throws, the \<^verbatim>\<open>catch\<close> callback removes the
  notes of the local identifier. When the guard holds and \<^verbatim>\<open>String(saved.id)\<close> is a
  string other than the local identifier, and the store at that moment has unique
  identifiers none of which is the new one, then every note of the local identifier is
  rebound: as many notes have the new identifier as had the local one, none retains the
  local one, and the identifiers are unique. When moreover no other handler ran meanwhile,
  and the store had unique identifiers before the create, neither the local nor the new one
  among them, exactly one note has the new identifier.
\<close>

theorem ids_unique:
  "(distinct (map note_id ns) \<longrightarrow>
        (u \<notin> set (map note_id ns) \<longrightarrow> distinct (map note_id (snd (create u now data ns))))
      \<and> (p_id pch = None \<longrightarrow> distinct (map note_id (snd (update eager i pch now ns))))
      \<and> distinct (map note_id (remove_note i ns)))
   \<and> replaceAll items ns = items
   \<and> (\<not> (truthy saved \<and> truthy (own_prop saved ''id'') \<and> own_prop saved ''id'' \<noteq> JStr u)
        \<longrightarrow> notes_st (newNote True u now toS (Fulfilled saved) nowA nowB between st)
              = notes_st (between (fst (snd (newNote_begin True u now st)))))
   \<and> (truthy saved \<and> truthy (own_prop saved ''id'') \<and> own_prop saved ''id'' \<noteq> JStr u
        \<and> js_String toS (own_prop saved ''id'') = Inl TypeError
        \<longrightarrow> notes_st (newNote True u now toS (Fulfilled saved) nowA nowB between st)
              = filter (\<lambda>n. note_id n \<noteq> u)
                  (notes_st (between (fst (snd (newNote_begin True u now st))))))
   \<and> (truthy saved \<and> truthy (own_prop saved ''id'')
        \<and> js_String toS (own_prop saved ''id'') = Inr newId \<and> newId \<noteq> u
        \<and> distinct (map note_id (notes_st (between (fst (snd (newNote_begin True u now st))))))
        \<and> newId \<notin> set (map note_id (notes_st (between (fst (snd (newNote_begin True u now st))))))
        \<longrightarrow> length (filter (\<lambda>n. note_id n = newId)
                  (notes_st (newNote True u now toS (Fulfilled saved) nowA nowB between st)))
              = length (filter (\<lambda>n. note_id n = u)
                  (notes_st (between (fst (snd (newNote_begin True u now st))))))
          \<and> filter (\<lambda>n. note_id n = u)
                  (notes_st (newNote True u now toS (Fulfilled saved) nowA nowB between st)) = []
          \<and> distinct (map note_id
                  (notes_st (newNote True u now toS (Fulfilled saved) nowA nowB between st))))
   \<and> (truthy saved \<and> truthy (own_prop saved ''id'')
        \<and> js_String toS (own_prop saved ''id'') = Inr newId \<and> newId \<noteq> u
        \<and> distinct (map note_id (notes_st st)) \<and> u \<notin> set (map note_id (notes_st st))
        \<and> newId \<notin> set (map note_id (notes_st st))
        \<longrightarrow> length (filter (\<lambda>n. note_id n = newId)
                  (notes_st (newNote True u now toS (Fulfilled saved) nowA nowB id st))) = 1
          \<and> filter (\<lambda>n. note_id n = u)
                  (notes_st (newNote True u now toS (Fulfilled saved) nowA nowB id st)) = []
          \<and> distinct (map note_id
                  (notes_st (newNote True u now toS (Fulfilled saved) nowA nowB id st))))"
proof -
  have c: "distinct (map note_id ns) \<longrightarrow>
        (u \<notin> set (map note_id ns) \<longrightarrow> distinct (map note_id (snd (create u now data ns))))
      \<and> (p_id pch = None \<longrightarrow> distinct (map note_id (snd (update eager i pch now ns))))
      \<and> distinct (map note_id (remove_note i ns))"
  proof (intro impI conjI)
    assume d: "distinct (map note_id ns)"
    show "distinct (map note_id (snd (create u now data ns)))" if "u \<notin> set (map note_id ns)"
      using d that by (simp add: create_def Let_def)
    show "distinct (map note_id (snd (update eager i pch now ns)))" if p: "p_id pch = None"
    proof -
      have "map note_id (snd (update eager i pch now ns)) = map note_id ns"
        using p by (simp add: update_def note_id_merged_keep o_def cong: if_cong)
      with d show ?thesis by simp
    qed
    show "distinct (map note_id (remove_note i ns))"
      using d by (simp add: remove_note_def distinct_map_filter)
  qed
  have ra: "replaceAll items ns = items"
    by (simp add: replaceAll_def)
  have g: "\<not> (truthy saved \<and> truthy (own_prop saved ''id'') \<and> own_prop saved ''id'' \<noteq> JStr u)
        \<longrightarrow> notes_st (newNote True u now toS (Fulfilled saved) nowA nowB between st)
              = notes_st (between (fst (snd (newNote_begin True u now st))))"
    using newNote_guard_fails [of saved u now toS nowA nowB between st] by blast
  have t: "truthy saved \<and> truthy (own_prop saved ''id'') \<and> own_prop saved ''id'' \<noteq> JStr u
        \<and> js_String toS (own_prop saved ''id'') = Inl TypeError
        \<longrightarrow> notes_st (newNote True u now toS (Fulfilled saved) nowA nowB between st)
              = filter (\<lambda>n. note_id n \<noteq> u)
                  (notes_st (between (fst (snd (newNote_begin True u now st)))))"
    using newNote_String_throws [of saved u toS TypeError now nowA nowB between st] by blast
  have rb: "length (filter (\<lambda>n. note_id n = newId)
                  (notes_st (newNote True u now toS (Fulfilled saved) nowA nowB bt st)))
              = length (filter (\<lambda>n. note_id n = u)
                  (notes_st (bt (fst (snd (newNote_begin True u now st))))))
          \<and> filter (\<lambda>n. note_id n = u)
                  (notes_st (newNote True u now toS (Fulfilled saved) nowA nowB bt st)) = []
          \<and> distinct (map note_id
                  (notes_st (newNote True u now toS (Fulfilled saved) nowA nowB bt st)))"
    if h: "truthy saved" "truthy (own_prop saved ''id'')"
      "js_String toS (own_prop saved ''id'') = Inr newId" "newId \<noteq> u"
      "distinct (map note_id (notes_st (bt (fst (snd (newNote_begin True u now st))))))"
      "newId \<notin> set (map note_id (notes_st (bt (fst (snd (newNote_begin True u now st))))))"
    for bt
  proof -
    have ne: "own_prop saved ''id'' \<noteq> JStr u"
      using h(3,4) by (auto simp add: js_String_def)
    have mid: "note_id (merged n \<lparr> p_id = Some newId, p_title = None, p_content = None,
                                    p_updatedAt = Some (or_else (own_prop saved ''updatedAt'')
                                                          (JStr nowA)) \<rparr> nowB) = newId" for n
      by (simp add: merged_def spread_def)
    show ?thesis
      by (simp only: newNote_rebinds [OF h(1,2) ne h(3)]
          rebinding_keeps_unique [OF h(5,6,4) mid])
  qed
  have a: "truthy saved \<and> truthy (own_prop saved ''id'')
        \<and> js_String toS (own_prop saved ''id'') = Inr newId \<and> newId \<noteq> u
        \<and> distinct (map note_id (notes_st (between (fst (snd (newNote_begin True u now st))))))
        \<and> newId \<notin> set (map note_id (notes_st (between (fst (snd (newNote_begin True u now st))))))
        \<longrightarrow> length (filter (\<lambda>n. note_id n = newId)
                  (notes_st (newNote True u now toS (Fulfilled saved) nowA nowB between st)))
              = length (filter (\<lambda>n. note_id n = u)
                  (notes_st (between (fst (snd (newNote_begin True u now st))))))
          \<and> filter (\<lambda>n. note_id n = u)
                  (notes_st (newNote True u now toS (Fulfilled saved) nowA nowB between st)) = []
          \<and> distinct (map note_id
                  (notes_st (newNote True u now toS (Fulfilled saved) nowA nowB between st)))"
    using rb [of between] by blast
  have b: "truthy saved \<and> truthy (own_prop saved ''id'')
        \<and> js_String toS (own_prop saved ''id'') = Inr newId \<and> newId \<noteq> u
        \<and> distinct (map note_id (notes_st st)) \<and> u \<notin> set (map note_id (notes_st st))
        \<and> newId \<notin> set (map note_id (notes_st st))
        \<longrightarrow> length (filter (\<lambda>n. note_id n = newId)
                  (notes_st (newNote True u now toS (Fulfilled saved) nowA nowB id st))) = 1
          \<and> filter (\<lambda>n. note_id n = u)
                  (notes_st (newNote True u now toS (Fulfilled saved) nowA nowB id st)) = []
          \<and> distinct (map note_id
                  (notes_st (newNote True u now toS (Fulfilled saved) nowA nowB id st)))"
  proof (intro impI, elim conjE)
    assume h: "truthy saved" "truthy (own_prop saved ''id'')"
      "js_String toS (own_prop saved ''id'') = Inr newId" "newId \<noteq> u"
      "distinct (map note_id (notes_st st))" "u \<notin> set (map note_id (notes_st st))"
      "newId \<notin> set (map note_id (notes_st st))"
    have d: "distinct (map note_id (notes_st (id (fst (snd (newNote_begin True u now st))))))"
      using h(5,6) by (simp add: newNote_begin_state)
    have f: "newId \<notin> set (map note_id (notes_st (id (fst (snd (newNote_begin True u now st))))))"
      using h(4,7) by (simp add: newNote_begin_state)
    have one: "length (filter (\<lambda>n. note_id n = u)
                 (notes_st (id (fst (snd (newNote_begin True u now st)))))) = 1"
      using h(6) by (simp add: newNote_begin_state filter_eq_absent)
    from rb [of id, OF h(1,2,3,4) d f] one
    show "length (filter (\<lambda>n. note_id n = newId)
                  (notes_st (newNote True u now toS (Fulfilled saved) nowA nowB id st))) = 1
          \<and> filter (\<lambda>n. note_id n = u)
                  (notes_st (newNote True u now toS (Fulfilled saved) nowA nowB id st)) = []
          \<and> distinct (map note_id
                  (notes_st (newNote True u now toS (Fulfilled saved) nowA nowB id st)))"
      by simp
  qed
  from c ra g t a b show ?thesis by blast
qed

theorem ids_unique_witness:
  "distinct (map note_id (notes_st ex_state))
   \<and> ex_uid \<notin> set (map note_id (notes_st ex_state))
   \<and> truthy ex_saved \<and> truthy (own_prop ex_saved ''id'')
   \<and> js_String ex_toS (own_prop ex_saved ''id'') = Inr (lit ''srv-17'')
   \<and> lit ''srv-17'' \<noteq> ex_uid
   \<and> lit ''srv-17'' \<notin> set (map note_id (notes_st ex_state))
   \<and> length (filter (\<lambda>n. note_id n = lit ''srv-17'')
        (notes_st (newNote True ex_uid t1 ex_toS (Fulfilled ex_saved) t2 t3 id ex_state))) = 1
   \<and> filter (\<lambda>n. note_id n = ex_uid)
        (notes_st (newNote True ex_uid t1 ex_toS (Fulfilled ex_saved) t2 t3 id ex_state)) = []
   \<and> distinct (map note_id
        (notes_st (newNote True ex_uid t1 ex_toS (Fulfilled ex_saved) t2 t3 id ex_state)))
   \<and> \<not> truthy (own_prop ex_saved_zero ''id'')
   \<and> notes_st (newNote True ex_uid t1 ex_toS (Fulfilled ex_saved_zero) t2 t3 id ex_state)
       = notes_st (fst (snd (newNote_begin True ex_uid t1 ex_state)))"
proof -
  have d: "distinct (map note_id (notes_st ex_state))"
    by (simp add: ex_state_def)
  have f: "ex_uid \<notin> set (map note_id (notes_st ex_state))"
    by (simp add: ex_state_def ex_note_def ex_uid_value lit_def)
  have s: "truthy ex_saved" "truthy (own_prop ex_saved ''id'')"
    by (simp_all add: ex_saved_def lit_def)
  have i: "js_String ex_toS (own_prop ex_saved ''id'') = Inr (lit ''srv-17'')"
    by (simp add: ex_saved_def js_String_def)
  have n: "lit ''srv-17'' \<noteq> ex_uid" "lit ''srv-17'' \<notin> set (map note_id (notes_st ex_state))"
    by (simp_all add: ex_state_def ex_note_def ex_uid_value lit_def)
  have z: "\<not> truthy (own_prop ex_saved_zero ''id'')"
    by (simp add: ex_saved_zero_def)
  note r = ids_unique [where u=ex_uid and now=t1 and st=ex_state and saved=ex_saved
      and toS=ex_toS and nowA=t2 and nowB=t3 and newId="lit ''srv-17''"]
  note r0 = ids_unique [where u=ex_uid and now=t1 and st=ex_state and saved=ex_saved_zero
      and toS=ex_toS and nowA=t2 and nowB=t3 and between=id]
  from r d f s i n have
    "length (filter (\<lambda>n. note_id n = lit ''srv-17'')
        (notes_st (newNote True ex_uid t1 ex_toS (Fulfilled ex_saved) t2 t3 id ex_state))) = 1
   \<and> filter (\<lambda>n. note_id n = ex_uid)
        (notes_st (newNote True ex_uid t1 ex_toS (Fulfilled ex_saved) t2 t3 id ex_state)) = []
   \<and> distinct (map note_id
        (notes_st (newNote True ex_uid t1 ex_toS (Fulfilled ex_saved) t2 t3 id ex_state)))"
    by blast
  moreover from r0 z have
    "notes_st (newNote True ex_uid t1 ex_toS (Fulfilled ex_saved_zero) t2 t3 id ex_state)
       = notes_st (id (fst (snd (newNote_begin True ex_uid t1 ex_state))))"
    by blast
  ultimately show ?thesis
    using d f s i n z by simp
qed

text \<open>
  C5 as stated fails: the store holds the note \<^verbatim>\<open>a\<close>, a note is created under a fresh
  local identifier, and the backend answers the create with the identifier \<^verbatim>\<open>a\<close>. The
  rebinding leaves two notes with that identifier.
\<close>

theorem ids_unique_counterexample:
  "distinct (map note_id (notes_st ex_state))
   \<and> ex_uid \<notin> set (map note_id (notes_st ex_state))
   \<and> own_prop ex_saved_dup ''id'' \<noteq> JStr ex_uid
   \<and> length (filter (\<lambda>n. note_id n = lit ''a'')
        (notes_st (newNote True ex_uid t1 ex_toS (Fulfilled ex_saved_dup) t2 t3 id ex_state))) = 2
   \<and> \<not> distinct (map note_id
        (notes_st (newNote True ex_uid t1 ex_toS (Fulfilled ex_saved_dup) t2 t3 id ex_state)))"
  by (simp add: newNote_def newNote_begin_enabled newNote_settle_def newNote_then_def
      get_prop_def ex_saved_dup_def update_def merged_def spread_def js_String_def or_else_def
      Let_def showToast_def ex_state_def ex_note_def ex_uid_value lit_def)

section \<open>Validation\<close>

lemma onSave_invalid:
  assumes "draft st = Some d" and "validate d \<noteq> []"
  shows "onSave_begin enabled now st = (st\<lparr> validation := validate d \<rparr>, None)"
    and "onSave enabled now outcome now' between st = st\<lparr> validation := validate d \<rparr>"
  using assms by (simp_all add: onSave_def onSave_begin_def Let_def)

text \<open>
  C6. \<^verbatim>\<open>validate\<close> is a function of the draft alone. A draft whose title is empty or
  blank gets the error \<^verbatim>\<open>Title is required\<close>, and \<^verbatim>\<open>onSave\<close> then sends no request and
  leaves the store as it is (it records the errors and nothing else). A title that is not
  blank passes when it has exactly 120 characters, and, more generally, exactly when it has
  at most 120; with 121 characters it gets the error
  \<^verbatim>\<open>Title must be at most 120 characters\<close>. The content has no influence on the result.
\<close>

theorem validate_rules:
  "(title d = [] \<or> trim (title d) = [] \<longrightarrow>
      validate d = [(''title'', lit ''Title is required'')]
      \<and> (draft st = Some d \<longrightarrow>
            snd (onSave_begin enabled now st) = None
          \<and> notes_st (fst (onSave_begin enabled now st)) = notes_st st
          \<and> onSave enabled now outcome now' between st
              = st\<lparr> validation := [(''title'', lit ''Title is required'')] \<rparr>))
   \<and> (trim (title d) \<noteq> [] \<and> length (title d) = 120 \<longrightarrow> validate d = [])
   \<and> (trim (title d) \<noteq> [] \<and> length (title d) = 121 \<longrightarrow>
        validate d = [(''title'', lit ''Title must be at most 120 characters'')])
   \<and> (trim (title d) \<noteq> [] \<longrightarrow> (validate d = [] \<longleftrightarrow> length (title d) \<le> 120))
   \<and> validate (d\<lparr> content := c \<rparr>) = validate d"
proof -
  have tr: "trim [] = []"
    by (simp add: trim_def)
  have blank: "title d = [] \<or> trim (title d) = [] \<Longrightarrow>
      validate d = [(''title'', lit ''Title is required'')]"
    by (auto simp add: validate_def)
  have a: "title d = [] \<or> trim (title d) = [] \<longrightarrow>
      validate d = [(''title'', lit ''Title is required'')]
      \<and> (draft st = Some d \<longrightarrow>
            snd (onSave_begin enabled now st) = None
          \<and> notes_st (fst (onSave_begin enabled now st)) = notes_st st
          \<and> onSave enabled now outcome now' between st
              = st\<lparr> validation := [(''title'', lit ''Title is required'')] \<rparr>)"
  proof (intro impI conjI)
    assume b: "title d = [] \<or> trim (title d) = []"
    show v: "validate d = [(''title'', lit ''Title is required'')]"
      by (rule blank [OF b])
    assume dr: "draft st = Some d"
    have ne: "validate d \<noteq> []"
      using v by simp
    show "snd (onSave_begin enabled now st) = None"
      by (simp add: onSave_invalid(1) [OF dr ne])
    show "notes_st (fst (onSave_begin enabled now st)) = notes_st st"
      by (simp add: onSave_invalid(1) [OF dr ne])
    show "onSave enabled now outcome now' between st
              = st\<lparr> validation := [(''title'', lit ''Title is required'')] \<rparr>"
      by (simp add: onSave_invalid(2) [OF dr ne] v)
  qed
  have nb: "trim (title d) \<noteq> [] \<Longrightarrow> title d \<noteq> []"
    using tr by auto
  have b: "trim (title d) \<noteq> [] \<and> length (title d) = 120 \<longrightarrow> validate d = []"
    using nb by (auto simp add: validate_def)
  have c: "trim (title d) \<noteq> [] \<and> length (title d) = 121 \<longrightarrow>
        validate d = [(''title'', lit ''Title must be at most 120 characters'')]"
    using nb by (auto simp add: validate_def)
  have e: "trim (title d) \<noteq> [] \<longrightarrow> (validate d = [] \<longleftrightarrow> length (title d) \<le> 120)"
    using nb by (auto simp add: validate_def)
  have f: "validate (d\<lparr> content := c \<rparr>) = validate d"
    by (simp add: validate_def)
  from a b c e f show ?thesis by blast
qed

theorem validate_rules_witness:
  "trim ex_long \<noteq> [] \<and> length ex_long = 120
   \<and> validate (ex_note\<lparr> title := ex_long \<rparr>) = []
   \<and> trim (ex_long @ lit ''b'') \<noteq> [] \<and> length (ex_long @ lit ''b'') = 121
   \<and> validate (ex_note\<lparr> title := ex_long @ lit ''b'' \<rparr>)
       = [(''title'', lit ''Title must be at most 120 characters'')]
   \<and> trim (lit ''   '') = []
   \<and> validate (ex_note\<lparr> title := lit ''   '' \<rparr>) = [(''title'', lit ''Title is required'')]
   \<and> notes_st (fst (onSave_begin True t1
         (ex_state\<lparr> draft := Some (ex_note\<lparr> title := lit ''   '' \<rparr>) \<rparr>)))
       = notes_st ex_state
   \<and> snd (onSave_begin True t1
         (ex_state\<lparr> draft := Some (ex_note\<lparr> title := lit ''   '' \<rparr>) \<rparr>)) = None"
proof -
  have l: "trim ex_long \<noteq> []" "length ex_long = 120"
    by (simp_all add: ex_long_def trim_def is_ws_def)
  have m: "trim (ex_long @ lit ''b'') \<noteq> []" "length (ex_long @ lit ''b'') = 121"
    by (simp_all add: ex_long_def trim_def is_ws_def lit_def)
  have b: "trim (lit ''   '') = []"
    by (simp add: trim_def is_ws_def lit_def)
  have dr: "draft (ex_state\<lparr> draft := Some (ex_note\<lparr> title := lit ''   '' \<rparr>) \<rparr>)
              = Some (ex_note\<lparr> title := lit ''   '' \<rparr>)"
    by simp
  from validate_rules [where d="ex_note\<lparr> title := ex_long \<rparr>"]
       validate_rules [where d="ex_note\<lparr> title := ex_long @ lit ''b'' \<rparr>"]
       validate_rules [where d="ex_note\<lparr> title := lit ''   '' \<rparr>" and enabled=True and now=t1
          and st="ex_state\<lparr> draft := Some (ex_note\<lparr> title := lit ''   '' \<rparr>) \<rparr>"]
       l m b dr
  show ?thesis by simp
qed

section \<open>Bootstrap: a listing from the backend\<close>
















section \<open>The store's create\<close>

text \<open>
  C8, as amended. \<^verbatim>\<open>create\<close> gives the new record the identifier that \<^verbatim>\<open>uid()\<close>
  returns, without looking at the store; it trims the title and takes \<^verbatim>\<open>Untitled\<close> when
  the title is absent, empty or blank, trims the content and takes the empty string when
  it is absent, stamps \<^verbatim>\<open>updatedAt\<close> with the clock, puts the record in front of the
  collection, whose records stay as they were and in their order, and returns the record.
  In a store with unique identifiers the new identifier is unique exactly when the
  generator's value is not yet the identifier of a note.
\<close>

theorem create_result:
  "create u now data ns =
     (\<lparr> note_id = u,
        title = (case pt_title data of None \<Rightarrow> lit ''Untitled''
                 | Some s \<Rightarrow> if trim s = [] then lit ''Untitled'' else trim s),
        content = (case pt_content data of None \<Rightarrow> [] | Some s \<Rightarrow> trim s),
        updatedAt = JStr now \<rparr>,
      \<lparr> note_id = u,
        title = (case pt_title data of None \<Rightarrow> lit ''Untitled''
                 | Some s \<Rightarrow> if trim s = [] then lit ''Untitled'' else trim s),
        content = (case pt_content data of None \<Rightarrow> [] | Some s \<Rightarrow> trim s),
        updatedAt = JStr now \<rparr> # ns)
   \<and> (distinct (map note_id ns) \<longrightarrow>
        (distinct (map note_id (snd (create u now data ns))) \<longleftrightarrow> u \<notin> set (map note_id ns)))"
  by (auto simp add: create_def Let_def trim_or_def lit_def split: option.splits)

theorem create_result_witness:
  "distinct (map note_id [ex_note])
   \<and> ex_uid \<notin> set (map note_id [ex_note])
   \<and> distinct (map note_id (snd (create ex_uid t1
        \<lparr> pt_title = Some (lit ''  Groceries ''), pt_content = None \<rparr> [ex_note])))
   \<and> create ex_uid t1 \<lparr> pt_title = Some (lit ''  Groceries ''), pt_content = None \<rparr> [ex_note]
       = (\<lparr> note_id = ex_uid, title = lit ''Groceries'', content = [], updatedAt = JStr t1 \<rparr>,
          [\<lparr> note_id = ex_uid, title = lit ''Groceries'', content = [], updatedAt = JStr t1 \<rparr>,
           ex_note])"
proof -
  have d: "distinct (map note_id [ex_note])"
    by simp
  have f: "ex_uid \<notin> set (map note_id [ex_note])"
    by (simp add: ex_note_def ex_uid_value lit_def)
  have t: "trim (lit ''  Groceries '') = lit ''Groceries''"
    by (simp add: trim_def is_ws_def lit_def)
  have g: "lit ''Groceries'' \<noteq> []"
    by (simp add: lit_def)
  from create_result [of ex_uid t1 "\<lparr> pt_title = Some (lit ''  Groceries ''), pt_content = None \<rparr>" "[ex_note]"]
    d f t g show ?thesis by simp
qed

text \<open>
  C8 as stated fails in its first clause: nothing in \<^verbatim>\<open>create\<close> compares the generated
  identifier with the store. When the generator returns the identifier of the note
  \<open>ex_local\<close> (a second create in the millisecond of the first, with the same random
  digits), the new record bears an identifier of the store and the identifiers are no
  longer unique.
\<close>

theorem create_result_counterexample:
  "note_id (fst (create ex_uid t1
       \<lparr> pt_title = Some (lit ''Untitled''), pt_content = Some [] \<rparr> [ex_local]))
     \<in> set (map note_id [ex_local])
   \<and> \<not> distinct (map note_id (snd (create ex_uid t1
       \<lparr> pt_title = Some (lit ''Untitled''), pt_content = Some [] \<rparr> [ex_local])))"
  by (simp add: create_def Let_def ex_local_def)

section \<open>Deleting: the restore overwrites the store\<close>



section \<open>Bootstrap: an answer that is not an array\<close>

text \<open>
  C10. When \<^verbatim>\<open>listNotes\<close> is fulfilled with a value that is not an array, \<^verbatim>\<open>bootstrap\<close>
  leaves the whole state as it is: the collection is unchanged and no toast is shown.
\<close>

theorem bootstrap_not_array:
  "\<not> isArray v \<Longrightarrow> bootstrap True cancel (Fulfilled v) toS dateOf hostSort uid_of now_of st = st"
  by (simp add: bootstrap_def)

theorem bootstrap_not_array_witness:
  "\<not> isArray (JObj [(''notes'', JArr [])])
   \<and> bootstrap True False (Fulfilled (JObj [(''notes'', JArr [])]))
        ex_toS ex_dateOf ex_hostSort ex_uid_of ex_now_of ex_state = ex_state
   \<and> \<not> isArray JNull
   \<and> bootstrap True False (Fulfilled JNull) ex_toS ex_dateOf ex_hostSort ex_uid_of ex_now_of ex_state
       = ex_state"
  using bootstrap_not_array [of "JObj [(''notes'', JArr [])]" False ex_toS ex_dateOf
          ex_hostSort ex_uid_of ex_now_of ex_state]
        bootstrap_not_array [of JNull False ex_toS ex_dateOf ex_hostSort ex_uid_of ex_now_of ex_state]
  by simp

end
